theory Spec2Isabelle
  imports Complex_Main
begin

section \<open>Python floats: IEEE 754 binary64\<close>

text \<open>
  The coordinates read by \<^verbatim>\<open>st.sidebar.number_input\<close> and the literal \<^verbatim>\<open>0.05\<close> are Python
  floats, that is binary64 values. A finite value is kept as the rational it denotes; the
  two zeros compare equal in Python and are not told apart here. Every arithmetic result
  is the exact rational result rounded to the nearest representable value, ties to the
  even significand, with 53 significant bits, a smallest exponent of \<open>-1022\<close> (below it
  the spacing stays \<open>2 powi -1074\<close>) and overflow to an infinity from \<open>2 ^ 1024\<close> on.
\<close>

datatype pyfloat = Finite rat | PInf | NInf | NaN

function bit_length :: "int \<Rightarrow> int" where
  \<comment> \<open>the number of binary digits of a positive integer\<close>
  "bit_length n = (if n \<le> 0 then 0 else 1 + bit_length (n div 2))"
  by pat_completeness auto
termination
  by (relation "measure nat") auto

declare bit_length.simps [simp del]

definition floor_exponent :: "int \<Rightarrow> rat \<Rightarrow> int" where
  \<comment> \<open>\<open>d\<close> if \<open>2 powi d \<le> \<bar>x\<bar>\<close>, otherwise \<open>d - 1\<close>\<close>
  "floor_exponent d x = (if 2 powi d \<le> \<bar>x\<bar> then d else d - 1)"

definition ilog2 :: "rat \<Rightarrow> int" where
  \<comment> \<open>the binary exponent \<open>\<lfloor>log\<^sub>2 \<bar>x\<bar>\<rfloor>\<close> of a non-zero rational\<close>
  "ilog2 x = (case quotient_of \<bar>x\<bar> of (p, q) \<Rightarrow> floor_exponent (bit_length p - bit_length q) x)"

definition nearest_even :: "int \<Rightarrow> rat \<Rightarrow> int" where
  \<comment> \<open>the integer nearest to \<open>f + r\<close> for \<open>0 \<le> r < 1\<close>, the even one at a tie\<close>
  "nearest_even f r =
     (if r < 1 / 2 then f else if 1 / 2 < r then f + 1 else if even f then f else f + 1)"

definition round_half_even :: "rat \<Rightarrow> int" where
  "round_half_even y = nearest_even \<lfloor>y\<rfloor> (y - of_int \<lfloor>y\<rfloor>)"

definition quantum :: "rat \<Rightarrow> int" where
  \<comment> \<open>exponent of the spacing of binary64 values around \<open>x\<close>\<close>
  "quantum x = max (ilog2 x) (- 1022) - 52"

definition round_to :: "int \<Rightarrow> rat \<Rightarrow> rat" where
  \<comment> \<open>the multiple of \<open>2 powi k\<close> nearest to \<open>x\<close>\<close>
  "round_to k x = of_int (round_half_even (x / 2 powi k)) * 2 powi k"

definition finite_or_inf :: "rat \<Rightarrow> pyfloat" where
  "finite_or_inf y =
     (if of_int (2 ^ 1024) \<le> \<bar>y\<bar> then (if 0 < y then PInf else NInf) else Finite y)"

definition round_double :: "rat \<Rightarrow> pyfloat" where
  "round_double x = (if x = 0 then Finite 0 else finite_or_inf (round_to (quantum x) x))"

definition float_lit :: "rat \<Rightarrow> pyfloat" where
  \<comment> \<open>a decimal literal of the source denotes the binary64 value nearest to it\<close>
  "float_lit q = round_double q"

fun fadd :: "pyfloat \<Rightarrow> pyfloat \<Rightarrow> pyfloat" where
  "fadd (Finite a) (Finite b) = round_double (a + b)"
| "fadd NaN _ = NaN"
| "fadd _ NaN = NaN"
| "fadd PInf NInf = NaN"
| "fadd NInf PInf = NaN"
| "fadd PInf _ = PInf"
| "fadd _ PInf = PInf"
| "fadd NInf _ = NInf"
| "fadd _ NInf = NInf"

fun fsub :: "pyfloat \<Rightarrow> pyfloat \<Rightarrow> pyfloat" where
  "fsub (Finite a) (Finite b) = round_double (a - b)"
| "fsub NaN _ = NaN"
| "fsub _ NaN = NaN"
| "fsub PInf PInf = NaN"
| "fsub NInf NInf = NaN"
| "fsub PInf _ = PInf"
| "fsub _ NInf = PInf"
| "fsub NInf _ = NInf"
| "fsub _ PInf = NInf"

fun fless :: "pyfloat \<Rightarrow> pyfloat \<Rightarrow> bool" where
  "fless (Finite a) (Finite b) = (a < b)"
| "fless NaN _ = False"
| "fless _ NaN = False"
| "fless _ NInf = False"
| "fless PInf _ = False"
| "fless NInf _ = True"
| "fless _ PInf = True"

section \<open>The bounding box of \<^verbatim>\<open>main\<close>\<close>

definition bbox_offset :: pyfloat where
  "bbox_offset = float_lit (5 / 100)"

definition bbox_coords :: "pyfloat \<Rightarrow> pyfloat \<Rightarrow> pyfloat list" where
  "bbox_coords lat lon =
     [fsub lon bbox_offset, fsub lat bbox_offset, fadd lon bbox_offset, fadd lat bbox_offset]"

section \<open>Dates\<close>

text \<open>
  A \<^verbatim>\<open>datetime.date\<close> is a year, a month and a day; dates compare as these triples do,
  and both \<^verbatim>\<open>date.isoformat()\<close> and \<^verbatim>\<open>str(date)\<close> print \<^verbatim>\<open>%04d-%02d-%02d\<close>.
\<close>

record pydate =
  year :: nat
  month :: nat
  day :: nat

definition date_gt :: "pydate \<Rightarrow> pydate \<Rightarrow> bool" where
  "date_gt a b = (year b < year a \<or> (year b = year a \<and>
     (month b < month a \<or> (month b = month a \<and> day b < day a))))"

definition digit_char :: "nat \<Rightarrow> char" where
  "digit_char d = ''0123456789'' ! (d mod 10)"

fun dec_string :: "nat \<Rightarrow> string" where
  "dec_string n = (if n < 10 then [digit_char n]
     else dec_string (n div 10) @ [digit_char (n mod 10)])"

declare dec_string.simps [simp del]

definition zero_pad :: "nat \<Rightarrow> string \<Rightarrow> string" where
  "zero_pad w s = replicate (w - length s) (CHR ''0'') @ s"

definition isoformat :: "pydate \<Rightarrow> string" where
  "isoformat d = zero_pad 4 (dec_string (year d)) @ ''-'' @
     zero_pad 2 (dec_string (month d)) @ ''-'' @ zero_pad 2 (dec_string (day d))"

section \<open>Exceptions\<close>

text \<open>
  What a call raises is an object with a class and a message (\<^verbatim>\<open>str(e)\<close>). Only the
  classes the source tells apart are kept: \<^verbatim>\<open>ValueError\<close> (caught by name in \<^verbatim>\<open>main\<close>),
  \<^verbatim>\<open>IndexError\<close> (raised by \<^verbatim>\<open>response[0]\<close> on an empty list), any other subclass of
  \<^verbatim>\<open>Exception\<close>, and the objects that derive from \<^verbatim>\<open>BaseException\<close> but not from
  \<^verbatim>\<open>Exception\<close> (\<^verbatim>\<open>KeyboardInterrupt\<close>, \<^verbatim>\<open>SystemExit\<close>), which \<^verbatim>\<open>except Exception\<close> lets through.
\<close>

datatype exc_class = ValueError | IndexError | OtherException | NonException

datatype raised = Raised exc_class string

fun is_Exception :: "raised \<Rightarrow> bool" where
  "is_Exception (Raised NonException _) = False"
| "is_Exception (Raised _ _) = True"

fun is_ValueError :: "raised \<Rightarrow> bool" where
  "is_ValueError (Raised ValueError _) = True"
| "is_ValueError (Raised _ _) = False"

fun str :: "raised \<Rightarrow> string" where
  "str (Raised _ msg) = msg"

section \<open>Configuration and the provider library\<close>

record SHConfig =
  instance_id :: "string option"
  sh_client_id :: "string option"
  sh_client_secret :: "string option"

fun falsy :: "string option \<Rightarrow> bool" where
  \<comment> \<open>Python's \<^verbatim>\<open>not v\<close> for a value that is \<^verbatim>\<open>None\<close> or a string\<close>
  "falsy None = True"
| "falsy (Some s) = (s = [])"

datatype DataCollection = SENTINEL2_L1C | SENTINEL3_L1 | LANDSAT8_L1

datatype MimeType = PNG | JPG | TIFF

datatype CRS = WGS84 | POP_WEB

type_synonym bytes = "char list"

record BBox =
  coords :: "pyfloat list"
  crs :: CRS

record input_data_obj =
  time_interval :: "string \<times> string"

record output_response_obj =
  response_id :: string
  response_format :: MimeType

record request =
  req_data_collection :: DataCollection
  req_input_data :: "input_data_obj list"
  req_responses :: "output_response_obj list"
  req_bbox :: BBox
  req_size :: "int \<times> int"
  req_config :: SHConfig

text \<open>
  The provider's library is not part of the repository. Its objects are identified with
  the arguments they were built from, and what its calls do is a parameter: whether a
  constructor raises, what \<^verbatim>\<open>bbox_to_dimensions\<close> computes, and what \<^verbatim>\<open>get_data\<close>, the one
  call that goes to the network, returns or raises.
\<close>

record sentinelhub =
  BBox_raises :: "pyfloat list \<Rightarrow> CRS \<Rightarrow> raised option"
  bbox_to_dimensions :: "BBox \<Rightarrow> int \<Rightarrow> raised + (int \<times> int)"
  input_data_raises :: "string \<times> string \<Rightarrow> raised option"
  output_response_raises :: "string \<Rightarrow> MimeType \<Rightarrow> raised option"
  SentinelHubRequest_raises :: "request \<Rightarrow> raised option"
  get_data :: "request \<Rightarrow> raised + bytes list"

section \<open>Effects\<close>

record folium_map =
  location :: "pyfloat \<times> pyfloat"
  zoom_start :: int
  markers :: "((pyfloat \<times> pyfloat) \<times> string) list"

datatype event =
    LogError string
  | LogInfo string
  | LogFetching string "pyfloat list"
  | LogException string
  | LogDebugMap pyfloat pyfloat int
  | LogDebugBBox "pyfloat list"
  | GetData request
  | StError string
  | StStop
  | StTitle string
  | SidebarHeader string
  | SidebarSubheader string
  | SidebarSelectbox string "string list" nat
  | SidebarNumberInput string pyfloat
  | SidebarSlider string int int int
  | SidebarDateInput string pydate
  | SidebarButton string
  | StFolium folium_map int int
  | StSpinner string
  | StSuccess string
  | StImage bytes string bool

section \<open>\<^verbatim>\<open>validate_sentinelhub_credentials\<close>\<close>

definition validate_sentinelhub_credentials :: "SHConfig \<Rightarrow> event list \<times> (raised + unit)" where
  "validate_sentinelhub_credentials config =
     (if falsy (instance_id config) \<or> falsy (sh_client_id config) \<or> falsy (sh_client_secret config)
      then ([LogError ''Sentinel Hub API credentials are not properly set in the .env file.''],
            Inl (Raised ValueError ''Missing Sentinel Hub API credentials.''))
      else ([], Inr ()))"

section \<open>\<^verbatim>\<open>get_sentinel_image\<close>\<close>

definition make_request ::
  "sentinelhub \<Rightarrow> SHConfig \<Rightarrow> pyfloat list \<Rightarrow> string \<Rightarrow> DataCollection \<Rightarrow> raised + request" where
  \<comment> \<open>lines 58 to 78: the bounding box, the size and the request object, built without a
     call to the network; the first constructor or helper that raises ends it\<close>
  "make_request lib config coords_arg date_arg collection =
     (case BBox_raises lib coords_arg WGS84 of Some e \<Rightarrow> Inl e | None \<Rightarrow>
      let bbox = \<lparr>coords = coords_arg, crs = WGS84\<rparr>; resolution = 10 in
      case bbox_to_dimensions lib bbox resolution of Inl e \<Rightarrow> Inl e | Inr dims \<Rightarrow>
      case input_data_raises lib (date_arg, date_arg) of Some e \<Rightarrow> Inl e | None \<Rightarrow>
      case output_response_raises lib ''default'' PNG of Some e \<Rightarrow> Inl e | None \<Rightarrow>
      let req = \<lparr>req_data_collection = collection,
                 req_input_data = [\<lparr>time_interval = (date_arg, date_arg)\<rparr>],
                 req_responses = [\<lparr>response_id = ''default'', response_format = PNG\<rparr>],
                 req_bbox = bbox, req_size = dims, req_config = config\<rparr> in
      case SentinelHubRequest_raises lib req of Some e \<Rightarrow> Inl e | None \<Rightarrow> Inr req)"

definition get_sentinel_image_try ::
  "sentinelhub \<Rightarrow> SHConfig \<Rightarrow> pyfloat list \<Rightarrow> string \<Rightarrow> DataCollection \<Rightarrow> event list \<times> (raised + bytes)" where
  \<comment> \<open>the body of the \<^verbatim>\<open>try\<close> block: the effects so far, and what was raised or returned\<close>
  "get_sentinel_image_try lib config coords_arg date_arg collection =
     (let started = [LogFetching date_arg coords_arg] in
      case make_request lib config coords_arg date_arg collection of
        Inl e \<Rightarrow> (started, Inl e)
      | Inr req \<Rightarrow>
          (case get_data lib req of
             Inl e \<Rightarrow> (started @ [GetData req], Inl e)
           | Inr response \<Rightarrow>
               let fetched = started @ [GetData req, LogInfo ''Satellite image fetched successfully.''] in
               (case response of
                  [] \<Rightarrow> (fetched, Inl (Raised IndexError ''list index out of range''))
                | img # _ \<Rightarrow> (fetched, Inr img))))"

definition get_sentinel_image ::
  "sentinelhub \<Rightarrow> SHConfig \<Rightarrow> pyfloat list \<Rightarrow> string \<Rightarrow> DataCollection \<Rightarrow> event list \<times> (raised + bytes option)" where
  \<comment> \<open>\<open>Inr (Some img)\<close> returns the image, \<open>Inr None\<close> returns \<^verbatim>\<open>None\<close>, \<open>Inl e\<close> lets \<open>e\<close> propagate\<close>
  "get_sentinel_image lib config coords_arg date_arg collection =
     (case get_sentinel_image_try lib config coords_arg date_arg collection of
        (evs, Inr img) \<Rightarrow> (evs, Inr (Some img))
      | (evs, Inl e) \<Rightarrow>
          if is_Exception e
          then (evs @ [LogException ''An error occurred while fetching the satellite image.'',
                       StError (''Error fetching image: '' @ str e)], Inr None)
          else (evs, Inl e))"

section \<open>\<^verbatim>\<open>initialize_folium_map\<close>\<close>

definition initialize_folium_map :: "pyfloat \<Rightarrow> pyfloat \<Rightarrow> int \<Rightarrow> event list \<times> folium_map" where
  "initialize_folium_map lat lon zoom =
     ([LogDebugMap lat lon zoom],
      \<lparr>location = (lat, lon), zoom_start = zoom, markers = [((lat, lon), ''Area of Interest'')]\<rparr>)"

section \<open>\<^verbatim>\<open>main\<close>: one pass of the script\<close>

text \<open>
  The framework runs \<^verbatim>\<open>main\<close> anew on every interaction. What the widgets and the clock
  return in one pass is its input.
\<close>

record inputs =
  in_satellite_option :: string
  in_lat :: pyfloat
  in_lon :: pyfloat
  in_zoom :: int
  in_today :: pydate
  in_date :: pydate
  in_button :: bool

definition satellite_mapping :: "string \<rightharpoonup> DataCollection" where
  "satellite_mapping = [''Sentinel-2'' \<mapsto> SENTINEL2_L1C, ''Sentinel-3'' \<mapsto> SENTINEL3_L1,
     ''Landsat-8'' \<mapsto> LANDSAT8_L1]"

definition selected_data_collection :: "string \<Rightarrow> DataCollection" where
  \<comment> \<open>\<^verbatim>\<open>satellite_mapping.get(satellite_option, DataCollection.SENTINEL2_L1C)\<close>\<close>
  "selected_data_collection satellite_option =
     (case satellite_mapping satellite_option of Some c \<Rightarrow> c | None \<Rightarrow> SENTINEL2_L1C)"

definition app_title :: string where
  "app_title = [char_of (0xF0 :: nat), char_of (0x9F :: nat), char_of (0x8C :: nat), char_of (0x8D :: nat)]
     @ '' Real-Time Satellite Image Processing''"

definition sidebar_and_map :: "inputs \<Rightarrow> event list" where
  \<comment> \<open>lines 118 to 165 of the script: everything rendered up to and including the button\<close>
  "sidebar_and_map ui =
     (let (map_log, folium) = initialize_folium_map (in_lat ui) (in_lon ui) (in_zoom ui) in
      [StTitle app_title,
       SidebarHeader ''Configuration'',
       SidebarSelectbox ''Choose Satellite Data'' [''Sentinel-2'', ''Sentinel-3'', ''Landsat-8''] 0,
       SidebarSubheader ''Define Area of Interest (AOI)'',
       SidebarNumberInput ''Latitude'' (float_lit (461512 / 10000)),
       SidebarNumberInput ''Longitude'' (float_lit (149955 / 10000)),
       SidebarSlider ''Zoom Level'' 1 15 10]
      @ map_log @
      [StFolium folium 700 500,
       LogDebugBBox (bbox_coords (in_lat ui) (in_lon ui)),
       SidebarSubheader ''Date Selection'',
       SidebarDateInput ''Select Date'' (in_today ui),
       SidebarButton ''Get Satellite Image''])"

definition main :: "sentinelhub \<Rightarrow> SHConfig \<Rightarrow> inputs \<Rightarrow> event list \<times> raised option" where
  \<comment> \<open>the effects of the pass, and the exception that leaves \<^verbatim>\<open>main\<close> if there is one\<close>
  "main lib config ui =
     (case validate_sentinelhub_credentials config of
        (evs, Inl ve) \<Rightarrow>
          if is_ValueError ve then (evs @ [StError (str ve), StStop], None) else (evs, Some ve)
      | (evs, Inr _) \<Rightarrow>
          let rendered = evs @ sidebar_and_map ui in
          if in_button ui then
            if date_gt (in_date ui) (in_today ui)
            then (rendered @ [StError ''Selected date cannot be in the future.''], None)
            else
              (case get_sentinel_image lib config (bbox_coords (in_lat ui) (in_lon ui))
                      (isoformat (in_date ui)) (selected_data_collection (in_satellite_option ui)) of
                 (fetch, Inl e) \<Rightarrow>
                   (rendered @ [StSpinner ''Fetching satellite image...''] @ fetch, Some e)
               | (fetch, Inr (Some image_data)) \<Rightarrow>
                   (rendered @ [StSpinner ''Fetching satellite image...''] @ fetch @
                      [StSuccess ''Satellite image fetched successfully!'',
                       StImage image_data (''Satellite Image on '' @ isoformat (in_date ui)) True],
                    None)
               | (fetch, Inr None) \<Rightarrow>
                   (rendered @ [StSpinner ''Fetching satellite image...''] @ fetch @
                      [StError ''Failed to retrieve satellite image.''], None))
          else (rendered, None))"

section \<open>Observations on a trace\<close>

fun requests_issued :: "event list \<Rightarrow> request list" where
  "requests_issued [] = []"
| "requests_issued (GetData r # evs) = r # requests_issued evs"
| "requests_issued (_ # evs) = requests_issued evs"

fun fetch_started :: "event \<Rightarrow> bool" where
  \<comment> \<open>the first statement of \<^verbatim>\<open>get_sentinel_image\<close>, which nothing else logs\<close>
  "fetch_started (LogFetching _ _) = True"
| "fetch_started _ = False"

fun is_sidebar_widget :: "event \<Rightarrow> bool" where
  "is_sidebar_widget (SidebarHeader _) = True"
| "is_sidebar_widget (SidebarSubheader _) = True"
| "is_sidebar_widget (SidebarSelectbox _ _ _) = True"
| "is_sidebar_widget (SidebarNumberInput _ _) = True"
| "is_sidebar_widget (SidebarSlider _ _ _ _) = True"
| "is_sidebar_widget (SidebarDateInput _ _) = True"
| "is_sidebar_widget (SidebarButton _) = True"
| "is_sidebar_widget _ = False"

fun is_map_event :: "event \<Rightarrow> bool" where
  "is_map_event (LogDebugMap _ _ _) = True"
| "is_map_event (StFolium _ _ _) = True"
| "is_map_event _ = False"

section \<open>Concrete configurations, libraries and passes\<close>

definition complete_config :: SHConfig where
  "complete_config = \<lparr>instance_id = Some ''instance'', sh_client_id = Some ''client'',
     sh_client_secret = Some ''secret''\<rparr>"

definition incomplete_config :: SHConfig where
  "incomplete_config = \<lparr>instance_id = Some ''instance'', sh_client_id = Some [],
     sh_client_secret = None\<rparr>"

definition working_lib :: sentinelhub where
  "working_lib = \<lparr>BBox_raises = (\<lambda>_ _. None),
     bbox_to_dimensions = (\<lambda>_ _. Inr (774, 1113)),
     input_data_raises = (\<lambda>_. None),
     output_response_raises = (\<lambda>_ _. None),
     SentinelHubRequest_raises = (\<lambda>_. None),
     get_data = (\<lambda>_. Inr [''PNG''])\<rparr>"

definition pass_today :: inputs where
  "pass_today = \<lparr>in_satellite_option = ''Sentinel-3'',
     in_lat = Finite (3247601986292207 / 70368744177664),
     in_lon = Finite (2110429006632321 / 140737488355328),
     in_zoom = 10,
     in_today = \<lparr>year = 2024, month = 3, day = 9\<rparr>,
     in_date = \<lparr>year = 2024, month = 3, day = 9\<rparr>,
     in_button = True\<rparr>"

definition pass_future :: inputs where
  \<comment> \<open>the same pass with the day after today selected\<close>
  "pass_future = pass_today\<lparr>in_date := \<lparr>year = 2024, month = 3, day = 10\<rparr>\<rparr>"

definition timeout_lib :: sentinelhub where
  \<comment> \<open>the network call fails\<close>
  "timeout_lib = working_lib\<lparr>get_data := (\<lambda>_. Inl (Raised OtherException ''Read timed out.''))\<rparr>"


definition unsizable_lib :: sentinelhub where
  \<comment> \<open>the size computation raises, as it may for a box outside the valid coordinates\<close>
  "unsizable_lib = working_lib\<lparr>bbox_to_dimensions :=
     (\<lambda>_ _. Inl (Raised ValueError ''cannot convert float NaN to integer''))\<rparr>"



section \<open>Libraries that raise instances of \<^verbatim>\<open>Exception\<close> only\<close>

definition raises_only_Exception :: "sentinelhub \<Rightarrow> bool" where
  \<comment> \<open>whatever a call of the library raises, at any argument, is an instance of \<^verbatim>\<open>Exception\<close>\<close>
  "raises_only_Exception lib \<longleftrightarrow>
     (\<forall>c r e. BBox_raises lib c r = Some e \<longrightarrow> is_Exception e) \<and>
     (\<forall>b n e. bbox_to_dimensions lib b n = Inl e \<longrightarrow> is_Exception e) \<and>
     (\<forall>t e. input_data_raises lib t = Some e \<longrightarrow> is_Exception e) \<and>
     (\<forall>i m e. output_response_raises lib i m = Some e \<longrightarrow> is_Exception e) \<and>
     (\<forall>q e. SentinelHubRequest_raises lib q = Some e \<longrightarrow> is_Exception e) \<and>
     (\<forall>q e. get_data lib q = Inl e \<longrightarrow> is_Exception e)"

section \<open>What the provider layer raises during one fetch\<close>



section \<open>Credential validation\<close>

lemma validate_cases:
  "validate_sentinelhub_credentials config =
     (if falsy (instance_id config) \<or> falsy (sh_client_id config) \<or> falsy (sh_client_secret config)
      then ([LogError ''Sentinel Hub API credentials are not properly set in the .env file.''],
            Inl (Raised ValueError ''Missing Sentinel Hub API credentials.''))
      else ([], Inr ()))"
  by (simp add: validate_sentinelhub_credentials_def)

lemma falsy_iff: "falsy v \<longleftrightarrow> v = None \<or> v = Some []"
  by (cases v) simp_all

text \<open>
  Claim C3. Validation raises \<^verbatim>\<open>ValueError\<close> exactly when one of the three credential
  fields is absent (\<open>None\<close>) or the empty string, and it returns normally, with nothing
  logged, exactly when all three fields hold a non-empty string.
\<close>

theorem validation_fails_iff_credential_missing:
  "((\<exists>evs msg. validate_sentinelhub_credentials config = (evs, Inl (Raised ValueError msg))) \<longleftrightarrow>
     (instance_id config = None \<or> instance_id config = Some [] \<or>
      sh_client_id config = None \<or> sh_client_id config = Some [] \<or>
      sh_client_secret config = None \<or> sh_client_secret config = Some []))
   \<and> (validate_sentinelhub_credentials config = ([], Inr ()) \<longleftrightarrow>
     (\<exists>a b c. a \<noteq> [] \<and> b \<noteq> [] \<and> c \<noteq> [] \<and> instance_id config = Some a \<and>
        sh_client_id config = Some b \<and> sh_client_secret config = Some c))"
proof -
  have "falsy (instance_id config) \<or> falsy (sh_client_id config) \<or> falsy (sh_client_secret config) \<longleftrightarrow>
     \<not> (\<exists>a b c. a \<noteq> [] \<and> b \<noteq> [] \<and> c \<noteq> [] \<and> instance_id config = Some a \<and>
        sh_client_id config = Some b \<and> sh_client_secret config = Some c)"
    by (cases "instance_id config"; cases "sh_client_id config"; cases "sh_client_secret config") auto
  then show ?thesis
    by (auto simp add: validate_cases falsy_iff)
qed

theorem validation_fails_iff_credential_missing_witness:
  "(\<exists>evs msg. validate_sentinelhub_credentials incomplete_config = (evs, Inl (Raised ValueError msg)))
   \<and> validate_sentinelhub_credentials complete_config = ([], Inr ())"
  using validation_fails_iff_credential_missing [of incomplete_config]
    validation_fails_iff_credential_missing [of complete_config]
  by (simp add: incomplete_config_def complete_config_def)

section \<open>Binary64 rounding and the bounding box\<close>

lemma round_half_even_error: "\<bar>of_int (round_half_even y) - y\<bar> \<le> 1 / 2"
proof -
  have "of_int \<lfloor>y\<rfloor> \<le> y" "y < of_int \<lfloor>y\<rfloor> + 1" by linarith+
  then show ?thesis
    by (auto simp: round_half_even_def nearest_even_def)
qed

lemma bit_length_nonneg: "0 \<le> bit_length n"
  by (induction n rule: bit_length.induct) (simp add: bit_length.simps)

lemma bit_length_pos: "0 < n \<Longrightarrow> 1 \<le> bit_length n"
  using bit_length_nonneg [of "n div 2"] by (simp add: bit_length.simps [of n])

lemma bit_length_bounds:
  "0 < n \<Longrightarrow> 2 ^ nat (bit_length n - 1) \<le> n \<and> n < 2 ^ nat (bit_length n)"
proof (induction n rule: bit_length.induct)
  case (1 n)
  show ?case
  proof (cases "n = 1")
    case True
    then show ?thesis by (simp add: bit_length.simps [of 1] bit_length.simps [of 0])
  next
    case False
    with "1.prems" have h: "0 < n div 2" "\<not> n \<le> 0" by simp_all
    from "1.IH" [OF h(2) h(1)]
    have lo: "2 ^ nat (bit_length (n div 2) - 1) \<le> n div 2"
      and hi: "n div 2 < 2 ^ nat (bit_length (n div 2))" by simp_all
    have pos: "1 \<le> bit_length (n div 2)"
      using h(1) by (rule bit_length_pos)
    have bl: "bit_length n = 1 + bit_length (n div 2)"
      using h(2) by (simp add: bit_length.simps [of n])
    have e1: "nat (bit_length n - 1) = Suc (nat (bit_length (n div 2) - 1))"
      using pos bl by simp
    have e2: "nat (bit_length n) = Suc (nat (bit_length (n div 2)))"
      using pos bl by simp
    have "2 * 2 ^ nat (bit_length (n div 2) - 1) \<le> 2 * (n div 2)" using lo by simp
    also have "\<dots> \<le> n" by simp
    finally have A: "2 ^ nat (bit_length n - 1) \<le> n" by (simp add: e1)
    have "n div 2 + 1 \<le> 2 ^ nat (bit_length (n div 2))" using hi by simp
    then have "2 * (n div 2 + 1) \<le> 2 * 2 ^ nat (bit_length (n div 2))" by simp
    moreover have "n < 2 * (n div 2 + 1)" by simp
    ultimately have B: "n < 2 ^ nat (bit_length n)" by (simp add: e2)
    from A B show ?thesis by simp
  qed
qed

lemma ilog2_lower:
  assumes "x \<noteq> 0"
  shows "2 powi (ilog2 x) \<le> \<bar>x\<bar>"
proof -
  obtain p q where pq: "quotient_of \<bar>x\<bar> = (p, q)" by (cases "quotient_of \<bar>x\<bar>")
  have q: "0 < q" using pq by (rule quotient_of_denom_pos)
  have ax: "\<bar>x\<bar> = of_int p / of_int q" using pq by (rule quotient_of_div)
  have "0 < \<bar>x\<bar>" using assms by simp
  then have p: "0 < p" using ax q by (simp add: zero_less_divide_iff)
  define d where "d = bit_length p - bit_length q"
  show ?thesis
  proof (cases "2 powi d \<le> \<bar>x\<bar>")
    case True
    then show ?thesis by (simp add: ilog2_def floor_exponent_def pq d_def)
  next
    case False
    then have e: "ilog2 x = d - 1" by (simp add: ilog2_def floor_exponent_def pq d_def)
    have bp: "2 ^ nat (bit_length p - 1) \<le> p" using bit_length_bounds [OF p] by simp
    have bq: "q < 2 ^ nat (bit_length q)" using bit_length_bounds [OF q] by simp
    have p1: "1 \<le> bit_length p" using p by (rule bit_length_pos)
    have q1: "0 \<le> bit_length q" by (rule bit_length_nonneg)
    have "(2::rat) powi (bit_length p - 1) = of_int (2 ^ nat (bit_length p - 1))"
      using p1 by (simp add: power_int_def)
    also have "\<dots> \<le> of_int p" using bp by (simp only: of_int_le_iff)
    finally have A: "(2::rat) powi (bit_length p - 1) \<le> of_int p" .
    have "of_int q \<le> (of_int (2 ^ nat (bit_length q)) :: rat)" using bq by (simp only: of_int_le_iff)
    also have "\<dots> = 2 powi (bit_length q)" using q1 by (simp add: power_int_def)
    finally have B: "of_int q \<le> (2::rat) powi (bit_length q)" .
    have "(2::rat) powi (d - 1) = 2 powi (bit_length p - 1) / 2 powi (bit_length q)"
      by (simp add: d_def power_int_diff)
    also have "\<dots> \<le> of_int p / 2 powi (bit_length q)"
      using A by (simp add: divide_right_mono)
    also have "\<dots> \<le> of_int p / of_int q"
      using B p q by (intro divide_left_mono) (auto)
    finally show ?thesis using e ax by simp
  qed
qed

lemma quantum_bound:
  assumes "x \<noteq> 0" and "\<bar>x\<bar> < 2 powi n" and "- 1022 \<le> n - 1"
  shows "quantum x \<le> n - 53"
proof -
  have "(2::rat) powi (ilog2 x) < 2 powi n"
    using ilog2_lower [OF assms(1)] assms(2) by linarith
  then have "ilog2 x < n"
    by (metis linorder_not_less power_int_increasing one_le_numeral)
  then show ?thesis using assms(3) by (simp add: quantum_def)
qed

lemma round_double_error:
  assumes "\<bar>x\<bar> < 256"
  shows "\<exists>y. round_double x = Finite y \<and> \<bar>y - x\<bar> \<le> 1 / 2 ^ 46"
proof (cases "x = 0")
  case True
  then show ?thesis by (simp add: round_double_def)
next
  case False
  define k where "k = quantum x"
  define y where "y = round_to k x"
  have "\<bar>x\<bar> < 2 powi 8" using assms by simp
  then have k: "k \<le> - 45" using quantum_bound [OF False, of 8] by (simp add: k_def)
  have pos: "(0::rat) < 2 powi k" by simp
  have "y - x = (of_int (round_half_even (x / 2 powi k)) - x / 2 powi k) * 2 powi k"
    using pos by (simp add: y_def round_to_def field_simps)
  then have "\<bar>y - x\<bar> = \<bar>of_int (round_half_even (x / 2 powi k)) - x / 2 powi k\<bar> * 2 powi k"
    using pos by (simp add: abs_mult)
  also have "\<dots> \<le> (1 / 2) * 2 powi k"
    using round_half_even_error [of "x / 2 powi k"] pos by (intro mult_right_mono) auto
  also have "\<dots> \<le> (1 / 2) * 2 powi (- 45)"
    using k by (intro mult_left_mono power_int_increasing) auto
  also have "\<dots> = 1 / 2 ^ 46" by (simp add: power_int_minus_divide)
  finally have err: "\<bar>y - x\<bar> \<le> 1 / 2 ^ 46" .
  have "\<bar>y\<bar> \<le> \<bar>x\<bar> + \<bar>y - x\<bar>" by linarith
  also have "\<dots> < 256 + 1" using assms err by (intro add_less_le_mono) (auto intro: order_trans)
  also have "\<dots> \<le> (of_int (2 ^ 1024) :: rat)" by simp
  finally have "\<not> (of_int (2 ^ 1024) :: rat) \<le> \<bar>y\<bar>" by simp
  then have "round_double x = Finite y"
    using False by (simp only: round_double_def finite_or_inf_def k_def y_def if_False)
  then show ?thesis using err by blast
qed

lemma bbox_offset_value: "bbox_offset = Finite (3602879701896397 / 72057594037927936)"
  unfolding bbox_offset_def float_lit_def by code_simp

lemma edge_minus:
  assumes "\<bar>x\<bar> \<le> 180"
  shows "\<exists>y. fsub (Finite x) bbox_offset = Finite y \<and> y < x \<and> \<bar>y - (x - 1 / 20)\<bar> \<le> 1 / 2 ^ 45"
proof -
  let ?o = "3602879701896397 / 72057594037927936 :: rat"
  have "\<bar>x - ?o\<bar> < 256" using assms by (simp add: abs_if split: if_splits)
  from round_double_error [OF this] obtain y
    where y: "round_double (x - ?o) = Finite y" and e: "\<bar>y - (x - ?o)\<bar> \<le> 1 / 2 ^ 46"
    by blast
  have "fsub (Finite x) bbox_offset = Finite y"
    by (simp add: bbox_offset_value y)
  moreover have "y < x" using e by (simp add: abs_if split: if_splits)
  moreover have "\<bar>y - (x - 1 / 20)\<bar> \<le> 1 / 2 ^ 45"
    using e by (simp add: abs_if split: if_splits)
  ultimately show ?thesis by blast
qed

lemma edge_plus:
  assumes "\<bar>x\<bar> \<le> 180"
  shows "\<exists>y. fadd (Finite x) bbox_offset = Finite y \<and> x < y \<and> \<bar>y - (x + 1 / 20)\<bar> \<le> 1 / 2 ^ 45"
proof -
  let ?o = "3602879701896397 / 72057594037927936 :: rat"
  have "\<bar>x + ?o\<bar> < 256" using assms by (simp add: abs_if split: if_splits)
  from round_double_error [OF this] obtain y
    where y: "round_double (x + ?o) = Finite y" and e: "\<bar>y - (x + ?o)\<bar> \<le> 1 / 2 ^ 46"
    by blast
  have "fadd (Finite x) bbox_offset = Finite y"
    by (simp add: bbox_offset_value y)
  moreover have "x < y" using e by (simp add: abs_if split: if_splits)
  moreover have "\<bar>y - (x + 1 / 20)\<bar> \<le> 1 / 2 ^ 45"
    using e by (simp add: abs_if split: if_splits)
  ultimately show ?thesis by blast
qed

lemma example_inputs:
  "float_lit (461512 / 10000) = Finite (3247601986292207 / 70368744177664)"
  "float_lit (149955 / 10000) = Finite (2110429006632321 / 140737488355328)"
  unfolding float_lit_def by code_simp+

lemma example_bbox:
  "bbox_coords (Finite (3247601986292207 / 70368744177664))
      (Finite (2110429006632321 / 140737488355328)) =
     [Finite (4206784264429109 / 281474976710656), Finite (811020887270831 / 17592186044416),
      Finite (4234931762100175 / 281474976710656), Finite (1625560211750545 / 35184372088832)]"
  unfolding bbox_coords_def bbox_offset_def float_lit_def by code_simp

lemma example_outputs:
  "float_lit (149455 / 10000) = Finite (4206784264429109 / 281474976710656)"
  "float_lit (461012 / 10000) = Finite (6488167098166647 / 140737488355328)"
  "float_lit (46101200000000006 / 1000000000000000) = Finite (811020887270831 / 17592186044416)"
  "float_lit (150455 / 10000) = Finite (4234931762100175 / 281474976710656)"
  "float_lit (462012 / 10000) = Finite (1625560211750545 / 35184372088832)"
  unfolding float_lit_def by code_simp+

lemma huge_bbox:
  "bbox_coords (Finite (2 ^ 60)) (Finite (2 ^ 60)) =
     [Finite (2 ^ 60), Finite (2 ^ 60), Finite (2 ^ 60), Finite (2 ^ 60)]"
  unfolding bbox_coords_def bbox_offset_def float_lit_def by code_simp

lemma binary64_known_values:
  "float_lit (1 / 10) = Finite (3602879701896397 / 36028797018963968)"
  "fadd (float_lit (1 / 10)) (float_lit (2 / 10)) = float_lit (30000000000000004 / 100000000000000000)"
  "fadd (float_lit (1 / 10)) (float_lit (2 / 10)) \<noteq> float_lit (3 / 10)"
  by code_simp+

lemma example_half_width:
  "fsub (Finite (4234931762100175 / 281474976710656)) (Finite (2110429006632321 / 140737488355328))
     = Finite (14073748835533 / 281474976710656)"
  by code_simp

text \<open>
  Claim C1 states the box in exact arithmetic. The script computes it in binary64: for
  the example of the specification the second entry is \<^verbatim>\<open>46.101200000000006\<close>, not
  \<^verbatim>\<open>46.1012\<close>; the distance from the centre to the eastern edge, computed as the script
  would, is not the offset; and for a coordinate as large as \<open>2 ^ 60\<close>, which the
  unbounded number inputs accept, both edges round to the coordinate and min \<open><\<close> max fails.
\<close>

theorem bbox_not_exact_counterexample:
  "bbox_coords (float_lit (461512 / 10000)) (float_lit (149955 / 10000)) \<noteq>
     [float_lit (149455 / 10000), float_lit (461012 / 10000),
      float_lit (150455 / 10000), float_lit (462012 / 10000)]
   \<and> fsub (bbox_coords (float_lit (461512 / 10000)) (float_lit (149955 / 10000)) ! 2)
        (float_lit (149955 / 10000)) \<noteq> bbox_offset
   \<and> \<not> fless (bbox_coords (Finite (2 ^ 60)) (Finite (2 ^ 60)) ! 0)
          (bbox_coords (Finite (2 ^ 60)) (Finite (2 ^ 60)) ! 2)"
proof (intro conjI)
  show "bbox_coords (float_lit (461512 / 10000)) (float_lit (149955 / 10000)) \<noteq>
     [float_lit (149455 / 10000), float_lit (461012 / 10000),
      float_lit (150455 / 10000), float_lit (462012 / 10000)]"
    unfolding example_inputs example_bbox example_outputs by simp
  have east: "bbox_coords (Finite (3247601986292207 / 70368744177664))
      (Finite (2110429006632321 / 140737488355328)) ! 2 =
      Finite (4234931762100175 / 281474976710656)"
    unfolding example_bbox by simp
  show "fsub (bbox_coords (float_lit (461512 / 10000)) (float_lit (149955 / 10000)) ! 2)
        (float_lit (149955 / 10000)) \<noteq> bbox_offset"
    unfolding example_inputs east bbox_offset_value example_half_width by simp
  show "\<not> fless (bbox_coords (Finite (2 ^ 60)) (Finite (2 ^ 60)) ! 0)
          (bbox_coords (Finite (2 ^ 60)) (Finite (2 ^ 60)) ! 2)"
    unfolding huge_bbox by simp
qed

text \<open>
  Claim C1, amended. The box is \<^verbatim>\<open>[lon - 0.05, lat - 0.05, lon + 0.05, lat + 0.05]\<close> in
  binary64 arithmetic. For a latitude in \<open>[-90, 90]\<close> and a longitude in \<open>[-180, 180]\<close>
  all four entries are finite, min \<open><\<close> max holds on both axes, the point lies strictly
  inside the box, and every edge is within \<open>1 / 2 ^ 45\<close> of the exact value, the centre minus or plus 0.05.
  For \<^verbatim>\<open>lat = 46.1512\<close>, \<^verbatim>\<open>lon = 14.9955\<close> the box is
  \<^verbatim>\<open>[14.9455, 46.101200000000006, 15.0455, 46.2012]\<close>.
\<close>

theorem bbox_coords_binary64:
  "bbox_coords lat lon =
     [fsub lon (float_lit (5 / 100)), fsub lat (float_lit (5 / 100)),
      fadd lon (float_lit (5 / 100)), fadd lat (float_lit (5 / 100))]
   \<and> (\<bar>a\<bar> \<le> 90 \<and> \<bar>b\<bar> \<le> 180 \<longrightarrow>
        (\<exists>w s e n. bbox_coords (Finite a) (Finite b) = [Finite w, Finite s, Finite e, Finite n]
           \<and> fless (Finite w) (Finite e) \<and> fless (Finite s) (Finite n)
           \<and> w < b \<and> b < e \<and> s < a \<and> a < n
           \<and> \<bar>w - (b - 1 / 20)\<bar> \<le> 1 / 2 ^ 45 \<and> \<bar>e - (b + 1 / 20)\<bar> \<le> 1 / 2 ^ 45
           \<and> \<bar>s - (a - 1 / 20)\<bar> \<le> 1 / 2 ^ 45 \<and> \<bar>n - (a + 1 / 20)\<bar> \<le> 1 / 2 ^ 45))
   \<and> bbox_coords (float_lit (461512 / 10000)) (float_lit (149955 / 10000)) =
       [float_lit (149455 / 10000), float_lit (46101200000000006 / 1000000000000000),
        float_lit (150455 / 10000), float_lit (462012 / 10000)]"
proof (intro conjI impI)
  show "bbox_coords lat lon =
     [fsub lon (float_lit (5 / 100)), fsub lat (float_lit (5 / 100)),
      fadd lon (float_lit (5 / 100)), fadd lat (float_lit (5 / 100))]"
    by (simp add: bbox_coords_def bbox_offset_def)
next
  assume r: "\<bar>a\<bar> \<le> 90 \<and> \<bar>b\<bar> \<le> 180"
  then have ra: "\<bar>a\<bar> \<le> 180" and rb: "\<bar>b\<bar> \<le> 180" by simp_all
  from edge_minus [OF rb] obtain w
    where w: "fsub (Finite b) bbox_offset = Finite w" "w < b" "\<bar>w - (b - 1 / 20)\<bar> \<le> 1 / 2 ^ 45"
    by blast
  from edge_minus [OF ra] obtain s
    where s: "fsub (Finite a) bbox_offset = Finite s" "s < a" "\<bar>s - (a - 1 / 20)\<bar> \<le> 1 / 2 ^ 45"
    by blast
  from edge_plus [OF rb] obtain e
    where e: "fadd (Finite b) bbox_offset = Finite e" "b < e" "\<bar>e - (b + 1 / 20)\<bar> \<le> 1 / 2 ^ 45"
    by blast
  from edge_plus [OF ra] obtain n
    where n: "fadd (Finite a) bbox_offset = Finite n" "a < n" "\<bar>n - (a + 1 / 20)\<bar> \<le> 1 / 2 ^ 45"
    by blast
  have "bbox_coords (Finite a) (Finite b) = [Finite w, Finite s, Finite e, Finite n]"
    by (simp add: bbox_coords_def w s e n)
  moreover have "fless (Finite w) (Finite e)" "fless (Finite s) (Finite n)"
    using w(2) e(2) s(2) n(2) by simp_all
  ultimately show "\<exists>w s e n. bbox_coords (Finite a) (Finite b) = [Finite w, Finite s, Finite e, Finite n]
           \<and> fless (Finite w) (Finite e) \<and> fless (Finite s) (Finite n)
           \<and> w < b \<and> b < e \<and> s < a \<and> a < n
           \<and> \<bar>w - (b - 1 / 20)\<bar> \<le> 1 / 2 ^ 45 \<and> \<bar>e - (b + 1 / 20)\<bar> \<le> 1 / 2 ^ 45
           \<and> \<bar>s - (a - 1 / 20)\<bar> \<le> 1 / 2 ^ 45 \<and> \<bar>n - (a + 1 / 20)\<bar> \<le> 1 / 2 ^ 45"
    using w s e n by blast
next
  show "bbox_coords (float_lit (461512 / 10000)) (float_lit (149955 / 10000)) =
       [float_lit (149455 / 10000), float_lit (46101200000000006 / 1000000000000000),
        float_lit (150455 / 10000), float_lit (462012 / 10000)]"
    unfolding example_inputs example_bbox example_outputs by (rule refl)
qed

theorem bbox_coords_binary64_witness:
  "\<bar>3247601986292207 / 70368744177664 :: rat\<bar> \<le> 90
   \<and> \<bar>2110429006632321 / 140737488355328 :: rat\<bar> \<le> 180
   \<and> fless (bbox_coords (Finite (3247601986292207 / 70368744177664))
               (Finite (2110429006632321 / 140737488355328)) ! 0)
            (bbox_coords (Finite (3247601986292207 / 70368744177664))
               (Finite (2110429006632321 / 140737488355328)) ! 2)"
proof -
  have r: "\<bar>3247601986292207 / 70368744177664 :: rat\<bar> \<le> 90
      \<and> \<bar>2110429006632321 / 140737488355328 :: rat\<bar> \<le> 180"
    by simp
  from bbox_coords_binary64 [of _ _ "3247601986292207 / 70368744177664"
      "2110429006632321 / 140737488355328"] r
  obtain w s e n where eq: "bbox_coords (Finite (3247601986292207 / 70368744177664))
      (Finite (2110429006632321 / 140737488355328)) = [Finite w, Finite s, Finite e, Finite n]"
    and lt: "fless (Finite w) (Finite e)"
    by blast
  have "fless (bbox_coords (Finite (3247601986292207 / 70368744177664))
               (Finite (2110429006632321 / 140737488355328)) ! 0)
            (bbox_coords (Finite (3247601986292207 / 70368744177664))
               (Finite (2110429006632321 / 140737488355328)) ! 2)"
    unfolding eq using lt by simp
  with r show ?thesis by blast
qed

section \<open>Passes of the script and fetches\<close>

lemma requests_issued_append:
  "requests_issued (xs @ ys) = requests_issued xs @ requests_issued ys"
  by (induction xs rule: requests_issued.induct) simp_all

lemma sidebar_and_map_no_request: "requests_issued (sidebar_and_map ui) = []"
  by (simp add: sidebar_and_map_def initialize_folium_map_def)

lemma sidebar_and_map_no_fetch: "\<not> list_ex fetch_started (sidebar_and_map ui)"
  by (simp add: sidebar_and_map_def initialize_folium_map_def)

lemma get_sentinel_image_try_starts:
  "\<exists>rest. fst (get_sentinel_image_try lib config c d k) = LogFetching d c # rest"
  by (simp add: get_sentinel_image_try_def Let_def split: sum.split list.split)

lemma get_sentinel_image_starts:
  "\<exists>rest. fst (get_sentinel_image lib config c d k) = LogFetching d c # rest"
proof -
  obtain evs r where t: "get_sentinel_image_try lib config c d k = (evs, r)"
    by (cases "get_sentinel_image_try lib config c d k")
  obtain rest where "evs = LogFetching d c # rest"
    using get_sentinel_image_try_starts [of lib config c d k] t by auto
  then show ?thesis
    by (cases r) (simp_all add: get_sentinel_image_def t)
qed

lemma main_invalid:
  assumes "snd (validate_sentinelhub_credentials config) \<noteq> Inr ()"
  shows "main lib config ui =
    ([LogError ''Sentinel Hub API credentials are not properly set in the .env file.'',
      StError ''Missing Sentinel Hub API credentials.'', StStop], None)"
  using assms by (auto simp add: main_def validate_cases split: if_splits)

lemma main_idle:
  assumes "validate_sentinelhub_credentials config = ([], Inr ())" and "\<not> in_button ui"
  shows "main lib config ui = (sidebar_and_map ui, None)"
  using assms by (simp add: main_def)

lemma main_future:
  assumes "validate_sentinelhub_credentials config = ([], Inr ())" and "in_button ui"
    and "date_gt (in_date ui) (in_today ui)"
  shows "main lib config ui =
    (sidebar_and_map ui @ [StError ''Selected date cannot be in the future.''], None)"
  using assms by (simp add: main_def)

lemma main_fetch:
  assumes "validate_sentinelhub_credentials config = ([], Inr ())" and "in_button ui"
    and "\<not> date_gt (in_date ui) (in_today ui)"
    and "get_sentinel_image lib config (bbox_coords (in_lat ui) (in_lon ui))
           (isoformat (in_date ui)) (selected_data_collection (in_satellite_option ui)) = (fetch, r)"
  shows "main lib config ui =
    (sidebar_and_map ui @ [StSpinner ''Fetching satellite image...''] @ fetch @
       (case r of Inl e \<Rightarrow> []
        | Inr None \<Rightarrow> [StError ''Failed to retrieve satellite image.'']
        | Inr (Some image_data) \<Rightarrow>
            [StSuccess ''Satellite image fetched successfully!'',
             StImage image_data (''Satellite Image on '' @ isoformat (in_date ui)) True]),
     case r of Inl e \<Rightarrow> Some e | Inr _ \<Rightarrow> None)"
  using assms by (simp add: main_def split: sum.split option.split)

text \<open>
  Claim C2. In a pass where validation succeeded and the fetch button is pressed: if the
  selected date is strictly after today, the pass shows the error message and ends, so
  \<^verbatim>\<open>get_sentinel_image\<close> is not invoked (its first log line is absent) and no request goes
  to the provider; if the selected date is today or earlier, \<^verbatim>\<open>get_sentinel_image\<close> is
  invoked with the bounding box, the ISO date and the selected collection.
\<close>

theorem future_date_blocks_fetch:
  assumes "validate_sentinelhub_credentials config = ([], Inr ())" and "in_button ui"
  shows "(date_gt (in_date ui) (in_today ui) \<longrightarrow>
            main lib config ui =
              (sidebar_and_map ui @ [StError ''Selected date cannot be in the future.''], None)
            \<and> \<not> list_ex fetch_started (fst (main lib config ui))
            \<and> requests_issued (fst (main lib config ui)) = [])
       \<and> (\<not> date_gt (in_date ui) (in_today ui) \<longrightarrow>
            (\<exists>after. fst (main lib config ui) =
               sidebar_and_map ui @ [StSpinner ''Fetching satellite image...''] @
               fst (get_sentinel_image lib config (bbox_coords (in_lat ui) (in_lon ui))
                     (isoformat (in_date ui)) (selected_data_collection (in_satellite_option ui))) @ after)
            \<and> list_ex fetch_started (fst (main lib config ui)))"
proof (intro conjI impI)
  assume future: "date_gt (in_date ui) (in_today ui)"
  show m: "main lib config ui =
      (sidebar_and_map ui @ [StError ''Selected date cannot be in the future.''], None)"
    using assms future by (rule main_future)
  show "\<not> list_ex fetch_started (fst (main lib config ui))"
    using sidebar_and_map_no_fetch [of ui] by (simp add: m)
  show "requests_issued (fst (main lib config ui)) = []"
    by (simp add: m requests_issued_append sidebar_and_map_no_request)
next
  assume past: "\<not> date_gt (in_date ui) (in_today ui)"
  obtain fetch r where g: "get_sentinel_image lib config (bbox_coords (in_lat ui) (in_lon ui))
      (isoformat (in_date ui)) (selected_data_collection (in_satellite_option ui)) = (fetch, r)"
    by (cases "get_sentinel_image lib config (bbox_coords (in_lat ui) (in_lon ui))
      (isoformat (in_date ui)) (selected_data_collection (in_satellite_option ui))")
  note m = main_fetch [OF assms past g]
  show "\<exists>after. fst (main lib config ui) =
      sidebar_and_map ui @ [StSpinner ''Fetching satellite image...''] @
      fst (get_sentinel_image lib config (bbox_coords (in_lat ui) (in_lon ui))
            (isoformat (in_date ui)) (selected_data_collection (in_satellite_option ui))) @ after"
    by (simp add: m g)
  obtain rest where "fetch = LogFetching (isoformat (in_date ui)) (bbox_coords (in_lat ui) (in_lon ui)) # rest"
    using get_sentinel_image_starts [of lib config "bbox_coords (in_lat ui) (in_lon ui)"
       "isoformat (in_date ui)" "selected_data_collection (in_satellite_option ui)"] g by auto
  then show "list_ex fetch_started (fst (main lib config ui))"
    by (simp add: m)
qed

lemma complete_config_valid: "validate_sentinelhub_credentials complete_config = ([], Inr ())"
  by (simp add: validate_cases complete_config_def)

lemma incomplete_config_invalid: "snd (validate_sentinelhub_credentials incomplete_config) \<noteq> Inr ()"
  by (simp add: validate_cases incomplete_config_def)

theorem future_date_blocks_fetch_witness:
  "date_gt (in_date pass_future) (in_today pass_future)
   \<and> requests_issued (fst (main working_lib complete_config pass_future)) = []
   \<and> \<not> date_gt (in_date pass_today) (in_today pass_today)
   \<and> list_ex fetch_started (fst (main working_lib complete_config pass_today))"
proof -
  have pressed: "in_button pass_future" "in_button pass_today"
    by (simp_all add: pass_future_def pass_today_def)
  have future: "date_gt (in_date pass_future) (in_today pass_future)"
    by (simp add: pass_future_def pass_today_def date_gt_def)
  have today: "\<not> date_gt (in_date pass_today) (in_today pass_today)"
    by (simp add: pass_today_def date_gt_def)
  show ?thesis
    using future_date_blocks_fetch [OF complete_config_valid pressed(1), of working_lib]
      future_date_blocks_fetch [OF complete_config_valid pressed(2), of working_lib]
      future today
    by blast
qed

text \<open>
  Claim C6. Every pass begins with the effects of credential validation. When validation
  fails, the pass consists of the logged error, the error shown to the user and
  \<^verbatim>\<open>st.stop()\<close>: no sidebar widget is rendered, \<^verbatim>\<open>get_sentinel_image\<close> is not invoked and no
  request goes to the provider, whatever the widgets would have returned.
\<close>

theorem missing_credentials_halt:
  "(\<exists>rest. fst (main lib config ui) = fst (validate_sentinelhub_credentials config) @ rest)
   \<and> (snd (validate_sentinelhub_credentials config) \<noteq> Inr () \<longrightarrow>
        main lib config ui =
          ([LogError ''Sentinel Hub API credentials are not properly set in the .env file.'',
            StError ''Missing Sentinel Hub API credentials.'', StStop], None)
        \<and> filter is_sidebar_widget (fst (main lib config ui)) = []
        \<and> \<not> list_ex fetch_started (fst (main lib config ui))
        \<and> requests_issued (fst (main lib config ui)) = [])"
proof (cases "snd (validate_sentinelhub_credentials config) = Inr ()")
  case True
  then have "fst (validate_sentinelhub_credentials config) = []"
    by (simp add: validate_cases split: if_splits)
  with True show ?thesis by simp
next
  case False
  note m = main_invalid [OF False, of lib ui]
  have "fst (validate_sentinelhub_credentials config) =
      [LogError ''Sentinel Hub API credentials are not properly set in the .env file.'']"
    using False by (simp add: validate_cases split: if_splits)
  then show ?thesis using False by (simp add: m)
qed

theorem missing_credentials_halt_witness:
  "snd (validate_sentinelhub_credentials incomplete_config) \<noteq> Inr ()
   \<and> main working_lib incomplete_config pass_today =
        ([LogError ''Sentinel Hub API credentials are not properly set in the .env file.'',
          StError ''Missing Sentinel Hub API credentials.'', StStop], None)"
  using missing_credentials_halt [of working_lib incomplete_config pass_today]
  by (simp add: incomplete_config_invalid)

lemma get_sentinel_image_raising:
  assumes "make_request lib config c d k = Inr req" and "get_data lib req = Inl e" and "is_Exception e"
  shows "get_sentinel_image lib config c d k =
    ([LogFetching d c, GetData req,
      LogException ''An error occurred while fetching the satellite image.'',
      StError (''Error fetching image: '' @ str e)], Inr None)"
  using assms by (simp add: get_sentinel_image_def get_sentinel_image_try_def)


lemma get_sentinel_image_image:
  assumes "make_request lib config c d k = Inr req" and "get_data lib req = Inr (img # others)"
  shows "get_sentinel_image lib config c d k =
    ([LogFetching d c, GetData req, LogInfo ''Satellite image fetched successfully.''],
     Inr (Some img))"
  using assms by (simp add: get_sentinel_image_def get_sentinel_image_try_def)

lemma get_sentinel_image_unbuilt:
  assumes "make_request lib config c d k = Inl e"
  shows "get_sentinel_image lib config c d k =
    (if is_Exception e
     then ([LogFetching d c, LogException ''An error occurred while fetching the satellite image.'',
            StError (''Error fetching image: '' @ str e)], Inr None)
     else ([LogFetching d c], Inl e))"
  using assms by (simp add: get_sentinel_image_def get_sentinel_image_try_def)

lemma requests_of_get_sentinel_image:
  "requests_issued (fst (get_sentinel_image lib config c d k)) =
     (case make_request lib config c d k of Inl e \<Rightarrow> [] | Inr req \<Rightarrow> [req])"
  by (simp add: get_sentinel_image_def get_sentinel_image_try_def Let_def
      split: sum.split list.split)

lemma make_request_fields:
  assumes "make_request lib config c d k = Inr req"
  shows "req_data_collection req = k \<and> req_input_data req = [\<lparr>time_interval = (d, d)\<rparr>]
    \<and> req_responses req = [\<lparr>response_id = ''default'', response_format = PNG\<rparr>]
    \<and> req_bbox req = \<lparr>coords = c, crs = WGS84\<rparr>
    \<and> bbox_to_dimensions lib \<lparr>coords = c, crs = WGS84\<rparr> 10 = Inr (req_size req)
    \<and> req_config req = config"
  using assms by (auto simp add: make_request_def Let_def split: option.splits sum.splits)

lemma main_requests:
  "requests_issued (fst (main lib config ui)) =
     (if validate_sentinelhub_credentials config = ([], Inr ()) \<and> in_button ui
         \<and> \<not> date_gt (in_date ui) (in_today ui)
      then requests_issued (fst (get_sentinel_image lib config (bbox_coords (in_lat ui) (in_lon ui))
             (isoformat (in_date ui)) (selected_data_collection (in_satellite_option ui))))
      else [])"
proof (cases "validate_sentinelhub_credentials config = ([], Inr ())")
  case False
  then have "snd (validate_sentinelhub_credentials config) \<noteq> Inr ()"
    by (simp add: validate_cases split: if_splits)
  from main_invalid [OF this, of lib ui] False show ?thesis by simp
next
  case valid: True
  show ?thesis
  proof (cases "in_button ui")
    case False
    with valid show ?thesis
      by (simp add: main_idle sidebar_and_map_no_request)
  next
    case pressed: True
    show ?thesis
    proof (cases "date_gt (in_date ui) (in_today ui)")
      case True
      with valid pressed show ?thesis
        by (simp add: main_future requests_issued_append sidebar_and_map_no_request)
    next
      case False
      obtain fetch r where g: "get_sentinel_image lib config (bbox_coords (in_lat ui) (in_lon ui))
          (isoformat (in_date ui)) (selected_data_collection (in_satellite_option ui)) = (fetch, r)"
        by (cases "get_sentinel_image lib config (bbox_coords (in_lat ui) (in_lon ui))
          (isoformat (in_date ui)) (selected_data_collection (in_satellite_option ui))")
      show ?thesis
        using valid pressed False
        by (simp add: main_fetch [OF valid pressed False g] g requests_issued_append
            sidebar_and_map_no_request split: sum.split option.split)
    qed
  qed
qed

lemma working_request:
  "make_request (working_lib\<lparr>get_data := g\<rparr>) config c d k =
     Inr \<lparr>req_data_collection = k, req_input_data = [\<lparr>time_interval = (d, d)\<rparr>],
          req_responses = [\<lparr>response_id = ''default'', response_format = PNG\<rparr>],
          req_bbox = \<lparr>coords = c, crs = WGS84\<rparr>, req_size = (774, 1113), req_config = config\<rparr>"
  by (simp add: make_request_def working_lib_def)

lemma timeout_request:
  "make_request timeout_lib config c d k =
     Inr \<lparr>req_data_collection = k, req_input_data = [\<lparr>time_interval = (d, d)\<rparr>],
          req_responses = [\<lparr>response_id = ''default'', response_format = PNG\<rparr>],
          req_bbox = \<lparr>coords = c, crs = WGS84\<rparr>, req_size = (774, 1113), req_config = config\<rparr>"
  by (simp add: timeout_lib_def working_request)

lemma pass_today_fetches:
  "in_button pass_today" "\<not> date_gt (in_date pass_today) (in_today pass_today)"
  by (simp_all add: pass_today_def date_gt_def)



text \<open>
  Claim C5 says that every fetch issues exactly one request. The bounding box, the size
  and the request object are built inside the same \<^verbatim>\<open>try\<close> block before the network
  call; when one of these steps raises, the handler returns \<^verbatim>\<open>None\<close> and no request was
  issued.
\<close>

theorem fetch_issues_no_request_counterexample:
  "requests_issued (fst (get_sentinel_image unsizable_lib complete_config
      [Finite 0, Finite 0, Finite 1, Finite 1] ''2024-03-09'' SENTINEL2_L1C)) = []"
  by (simp add: requests_of_get_sentinel_image make_request_def unsizable_lib_def working_lib_def)

text \<open>
  Claim C5, amended. A fetch issues at most one request, and exactly one whenever the
  bounding box, the size and the request object are built without an exception. The
  request it issues carries the size that \<^verbatim>\<open>bbox_to_dimensions\<close> computes from the WGS84
  bounding box at resolution 10, the time interval \<open>(date, date)\<close>, the single response
  \<^verbatim>\<open>default\<close> in PNG, the collection passed in, and the configuration.
\<close>

theorem fetch_issues_at_most_one_request:
  "length (requests_issued (fst (get_sentinel_image lib config c d k))) \<le> 1
   \<and> (length (requests_issued (fst (get_sentinel_image lib config c d k))) = 1 \<longleftrightarrow>
        (\<exists>req. make_request lib config c d k = Inr req))
   \<and> (\<forall>req \<in> set (requests_issued (fst (get_sentinel_image lib config c d k))).
        bbox_to_dimensions lib \<lparr>coords = c, crs = WGS84\<rparr> 10 = Inr (req_size req)
        \<and> req_bbox req = \<lparr>coords = c, crs = WGS84\<rparr>
        \<and> req_input_data req = [\<lparr>time_interval = (d, d)\<rparr>]
        \<and> req_responses req = [\<lparr>response_id = ''default'', response_format = PNG\<rparr>]
        \<and> req_data_collection req = k
        \<and> req_config req = config)"
proof (cases "make_request lib config c d k")
  case (Inl e)
  then show ?thesis by (simp add: requests_of_get_sentinel_image)
next
  case (Inr req)
  from make_request_fields [OF Inr] Inr show ?thesis
    by (simp add: requests_of_get_sentinel_image)
qed

theorem fetch_issues_at_most_one_request_witness:
  "requests_issued (fst (get_sentinel_image working_lib complete_config
      [Finite 0, Finite 0, Finite 1, Finite 1] ''2024-03-09'' SENTINEL2_L1C)) =
    [\<lparr>req_data_collection = SENTINEL2_L1C,
      req_input_data = [\<lparr>time_interval = (''2024-03-09'', ''2024-03-09'')\<rparr>],
      req_responses = [\<lparr>response_id = ''default'', response_format = PNG\<rparr>],
      req_bbox = \<lparr>coords = [Finite 0, Finite 0, Finite 1, Finite 1], crs = WGS84\<rparr>,
      req_size = (774, 1113), req_config = complete_config\<rparr>]"
proof -
  have b: "bbox_to_dimensions working_lib b n = Inr (774, 1113)" for b n
    by (simp add: working_lib_def)
  have m: "\<exists>req. make_request working_lib complete_config
      [Finite 0, Finite 0, Finite 1, Finite 1] ''2024-03-09'' SENTINEL2_L1C = Inr req"
    by (simp add: make_request_def working_lib_def)
  let ?rs = "requests_issued (fst (get_sentinel_image working_lib complete_config
      [Finite 0, Finite 0, Finite 1, Finite 1] ''2024-03-09'' SENTINEL2_L1C))"
  note t = fetch_issues_at_most_one_request [of working_lib complete_config
      "[Finite 0, Finite 0, Finite 1, Finite 1]" "''2024-03-09''" SENTINEL2_L1C]
  from t m have "length ?rs = 1" by blast
  then obtain r where r: "?rs = [r]"
    by (cases ?rs) simp_all
  with t have "req_size r = (774, 1113)" "req_bbox r = \<lparr>coords = [Finite 0, Finite 0, Finite 1, Finite 1], crs = WGS84\<rparr>"
    "req_input_data r = [\<lparr>time_interval = (''2024-03-09'', ''2024-03-09'')\<rparr>]"
    "req_responses r = [\<lparr>response_id = ''default'', response_format = PNG\<rparr>]"
    "req_data_collection r = SENTINEL2_L1C" "req_config r = complete_config"
    by (simp_all add: b)
  then have "r = \<lparr>req_data_collection = SENTINEL2_L1C,
      req_input_data = [\<lparr>time_interval = (''2024-03-09'', ''2024-03-09'')\<rparr>],
      req_responses = [\<lparr>response_id = ''default'', response_format = PNG\<rparr>],
      req_bbox = \<lparr>coords = [Finite 0, Finite 0, Finite 1, Finite 1], crs = WGS84\<rparr>,
      req_size = (774, 1113), req_config = complete_config\<rparr>"
    by (cases r) simp
  with r show ?thesis by simp
qed

lemma selected_data_collection_cases:
  "selected_data_collection opt =
     (if opt = ''Landsat-8'' then LANDSAT8_L1 else if opt = ''Sentinel-3'' then SENTINEL3_L1
      else SENTINEL2_L1C)"
  by (simp add: selected_data_collection_def satellite_mapping_def)

lemma isoformat_pass_today: "isoformat (in_date pass_today) = ''2024-03-09''"
  by (simp add: pass_today_def isoformat_def zero_pad_def dec_string.simps digit_char_def)

lemma main_displays_image:
  assumes "validate_sentinelhub_credentials config = ([], Inr ())" and "in_button ui"
    and "\<not> date_gt (in_date ui) (in_today ui)"
    and "make_request lib config (bbox_coords (in_lat ui) (in_lon ui)) (isoformat (in_date ui))
           (selected_data_collection (in_satellite_option ui)) = Inr req"
    and "get_data lib req = Inr (img # others)"
  shows "main lib config ui =
    (sidebar_and_map ui @
     [StSpinner ''Fetching satellite image...'',
      LogFetching (isoformat (in_date ui)) (bbox_coords (in_lat ui) (in_lon ui)),
      GetData req, LogInfo ''Satellite image fetched successfully.'',
      StSuccess ''Satellite image fetched successfully!'',
      StImage img (''Satellite Image on '' @ isoformat (in_date ui)) True], None)"
  using main_fetch [OF assms(1,2,3) get_sentinel_image_image [OF assms(4,5)]] by simp

text \<open>
  Claim C7 says that a fetch for \<^verbatim>\<open>Sentinel-3\<close> or \<^verbatim>\<open>Landsat-8\<close> uses the Sentinel-2
  collection. Both options are keys of \<^verbatim>\<open>satellite_mapping\<close>, so the default of
  \<^verbatim>\<open>.get\<close> is not taken: the request of a pass with \<^verbatim>\<open>Sentinel-3\<close> selected names
  \<^verbatim>\<open>SENTINEL3_L1\<close>.
\<close>

theorem selection_is_not_replaced_by_Sentinel2_counterexample:
  "selected_data_collection ''Sentinel-3'' \<noteq> SENTINEL2_L1C
   \<and> selected_data_collection ''Landsat-8'' \<noteq> SENTINEL2_L1C
   \<and> map req_data_collection (requests_issued (fst (main working_lib complete_config pass_today)))
       = [SENTINEL3_L1]"
proof -
  have "in_satellite_option pass_today = ''Sentinel-3''"
    by (simp add: pass_today_def)
  then show ?thesis
    using working_request [of "get_data working_lib" complete_config]
    by (simp add: selected_data_collection_cases main_requests complete_config_valid
        pass_today_fetches requests_of_get_sentinel_image)
qed

text \<open>
  Claim C7, amended. The collection passed to the fetcher is the mapping's entry for the
  selected option: \<^verbatim>\<open>SENTINEL2_L1C\<close> for \<^verbatim>\<open>Sentinel-2\<close>, \<^verbatim>\<open>SENTINEL3_L1\<close> for \<^verbatim>\<open>Sentinel-3\<close>,
  \<^verbatim>\<open>LANDSAT8_L1\<close> for \<^verbatim>\<open>Landsat-8\<close>; the default \<^verbatim>\<open>SENTINEL2_L1C\<close> applies only to an option
  that is not a key of the mapping. Every request a pass issues names that collection.
\<close>

theorem selection_maps_to_named_collection:
  "selected_data_collection ''Sentinel-2'' = SENTINEL2_L1C
   \<and> selected_data_collection ''Sentinel-3'' = SENTINEL3_L1
   \<and> selected_data_collection ''Landsat-8'' = LANDSAT8_L1
   \<and> (opt \<notin> {''Sentinel-2'', ''Sentinel-3'', ''Landsat-8''} \<longrightarrow>
        selected_data_collection opt = SENTINEL2_L1C)
   \<and> (\<forall>req \<in> set (requests_issued (fst (main lib config ui))).
        req_data_collection req = selected_data_collection (in_satellite_option ui))"
proof -
  have "req_data_collection req = selected_data_collection (in_satellite_option ui)"
    if "req \<in> set (requests_issued (fst (main lib config ui)))" for req
  proof -
    from that have "make_request lib config (bbox_coords (in_lat ui) (in_lon ui))
        (isoformat (in_date ui)) (selected_data_collection (in_satellite_option ui)) = Inr req"
      by (auto simp add: main_requests requests_of_get_sentinel_image split: if_splits sum.splits)
    from make_request_fields [OF this] show ?thesis by simp
  qed
  then show ?thesis
    by (simp add: selected_data_collection_cases)
qed

theorem selection_maps_to_named_collection_witness:
  "selected_data_collection ''Sentinel-1'' = SENTINEL2_L1C
   \<and> map req_data_collection (requests_issued (fst (main working_lib complete_config pass_today)))
       = [SENTINEL3_L1]"
proof -
  have s: "selected_data_collection (in_satellite_option pass_today) = SENTINEL3_L1"
    by (simp add: pass_today_def selected_data_collection_cases)
  obtain r where r: "requests_issued (fst (main working_lib complete_config pass_today)) = [r]"
    using working_request [of "get_data working_lib" complete_config]
    by (simp add: main_requests complete_config_valid pass_today_fetches
        requests_of_get_sentinel_image)
  have o: "''Sentinel-1'' \<notin> {''Sentinel-2'', ''Sentinel-3'', ''Landsat-8''}" by simp
  note t = selection_maps_to_named_collection [of "''Sentinel-1''" working_lib complete_config pass_today]
  from t o have "selected_data_collection ''Sentinel-1'' = SENTINEL2_L1C" by blast
  moreover from t r s have "req_data_collection r = SENTINEL3_L1" by simp
  ultimately show ?thesis by (simp add: r)
qed

text \<open>
  Claim C8 says that the caption equals the selected date string. The caption is the
  f-string \<^verbatim>\<open>Satellite Image on {date}\<close>: for 9 March 2024 it is
  \<^verbatim>\<open>Satellite Image on 2024-03-09\<close>, which is not \<^verbatim>\<open>2024-03-09\<close>.
\<close>

theorem caption_is_not_the_date_string_counterexample:
  "last (fst (main working_lib complete_config pass_today)) =
     StImage ''PNG'' ''Satellite Image on 2024-03-09'' True
   \<and> isoformat (in_date pass_today) = ''2024-03-09''"
proof -
  have g: "get_data working_lib req = Inr [''PNG'']" for req
    by (simp add: working_lib_def)
  show ?thesis
    using main_displays_image [OF complete_config_valid pass_today_fetches
        working_request [of "get_data working_lib" complete_config, simplified] g]
    by (simp add: isoformat_pass_today)
qed

text \<open>
  Claim C8, amended. Whenever the provider call returns a non-empty response, in a pass
  that reached it, the first image of the response is displayed, after the success
  message, with the caption \<^verbatim>\<open>Satellite Image on\<close> followed by the ISO form of the selected
  date; no other image is displayed and no exception leaves \<^verbatim>\<open>main\<close>.
\<close>

theorem returned_image_is_displayed_with_dated_caption:
  assumes "validate_sentinelhub_credentials config = ([], Inr ())" and "in_button ui"
    and "\<not> date_gt (in_date ui) (in_today ui)"
    and "make_request lib config (bbox_coords (in_lat ui) (in_lon ui)) (isoformat (in_date ui))
           (selected_data_collection (in_satellite_option ui)) = Inr req"
    and "get_data lib req = Inr (img # others)"
  shows "snd (main lib config ui) = None
    \<and> (\<exists>before. fst (main lib config ui) =
          before @ [StSuccess ''Satellite image fetched successfully!'',
                    StImage img (''Satellite Image on '' @ isoformat (in_date ui)) True])
    \<and> (\<forall>image_data caption flag. StImage image_data caption flag \<in> set (fst (main lib config ui)) \<longrightarrow>
          image_data = img \<and> caption = ''Satellite Image on '' @ isoformat (in_date ui))"
proof -
  note m = main_displays_image [OF assms]
  have "StImage a b f \<notin> set (sidebar_and_map ui)" for a b f
    by (simp add: sidebar_and_map_def initialize_folium_map_def)
  then show ?thesis
    by (auto simp add: m)
qed

theorem returned_image_is_displayed_with_dated_caption_witness:
  "snd (main working_lib complete_config pass_today) = None
   \<and> StImage ''PNG'' (''Satellite Image on '' @ isoformat (in_date pass_today)) True
       \<in> set (fst (main working_lib complete_config pass_today))"
proof -
  have g: "get_data working_lib req = Inr [''PNG'']" for req
    by (simp add: working_lib_def)
  show ?thesis
    using returned_image_is_displayed_with_dated_caption [OF complete_config_valid pass_today_fetches
        working_request [of "get_data working_lib" complete_config, simplified] g]
    by auto
qed

lemma sidebar_and_map_zoom:
  "filter (\<lambda>e. \<not> is_map_event e) (sidebar_and_map (ui\<lparr>in_zoom := z\<rparr>)) =
   filter (\<lambda>e. \<not> is_map_event e) (sidebar_and_map ui)"
  by (simp add: sidebar_and_map_def initialize_folium_map_def)

lemma main_zoom:
  "filter (\<lambda>e. \<not> is_map_event e) (fst (main lib config (ui\<lparr>in_zoom := z\<rparr>))) =
     filter (\<lambda>e. \<not> is_map_event e) (fst (main lib config ui))
   \<and> snd (main lib config (ui\<lparr>in_zoom := z\<rparr>)) = snd (main lib config ui)"
proof (cases "validate_sentinelhub_credentials config = ([], Inr ())")
  case False
  then have "snd (validate_sentinelhub_credentials config) \<noteq> Inr ()"
    by (simp add: validate_cases split: if_splits)
  then show ?thesis by (simp add: main_invalid)
next
  case valid: True
  show ?thesis
  proof (cases "in_button ui")
    case False
    with valid show ?thesis
      by (simp add: main_idle sidebar_and_map_zoom)
  next
    case pressed: True
    show ?thesis
    proof (cases "date_gt (in_date ui) (in_today ui)")
      case True
      with valid pressed show ?thesis
        by (simp add: main_future sidebar_and_map_zoom)
    next
      case False
      obtain fetch r where g: "get_sentinel_image lib config (bbox_coords (in_lat ui) (in_lon ui))
          (isoformat (in_date ui)) (selected_data_collection (in_satellite_option ui)) = (fetch, r)"
        by (cases "get_sentinel_image lib config (bbox_coords (in_lat ui) (in_lon ui))
          (isoformat (in_date ui)) (selected_data_collection (in_satellite_option ui))")
      have pressed': "in_button (ui\<lparr>in_zoom := z\<rparr>)"
        and past': "\<not> date_gt (in_date (ui\<lparr>in_zoom := z\<rparr>)) (in_today (ui\<lparr>in_zoom := z\<rparr>))"
        and g': "get_sentinel_image lib config
          (bbox_coords (in_lat (ui\<lparr>in_zoom := z\<rparr>)) (in_lon (ui\<lparr>in_zoom := z\<rparr>)))
          (isoformat (in_date (ui\<lparr>in_zoom := z\<rparr>)))
          (selected_data_collection (in_satellite_option (ui\<lparr>in_zoom := z\<rparr>))) = (fetch, r)"
        using pressed False g by simp_all
      show ?thesis
        by (simp add: main_fetch [OF valid pressed False g] main_fetch [OF valid pressed' past' g']
            sidebar_and_map_zoom split: sum.split option.split)
    qed
  qed
qed

text \<open>
  Claim C10. Two passes that differ only in the zoom value compute the same bounding box,
  issue the same requests, end the same way, and have the same effects once the two
  effects of the map (the debug line of \<^verbatim>\<open>initialize_folium_map\<close> and the rendered map)
  are left out; in particular the arguments of \<^verbatim>\<open>get_sentinel_image\<close> are the same.
\<close>

theorem zoom_changes_only_the_map:
  "bbox_coords (in_lat (ui\<lparr>in_zoom := z\<rparr>)) (in_lon (ui\<lparr>in_zoom := z\<rparr>)) =
     bbox_coords (in_lat ui) (in_lon ui)
   \<and> filter (\<lambda>e. \<not> is_map_event e) (fst (main lib config (ui\<lparr>in_zoom := z\<rparr>))) =
     filter (\<lambda>e. \<not> is_map_event e) (fst (main lib config ui))
   \<and> requests_issued (fst (main lib config (ui\<lparr>in_zoom := z\<rparr>))) =
     requests_issued (fst (main lib config ui))
   \<and> snd (main lib config (ui\<lparr>in_zoom := z\<rparr>)) = snd (main lib config ui)"
proof -
  have "requests_issued (fst (main lib config (ui\<lparr>in_zoom := z\<rparr>))) =
      requests_issued (fst (main lib config ui))"
    by (simp add: main_requests)
  then show ?thesis
    using main_zoom [of lib config z ui] by simp
qed

section \<open>Exceptions during a fetch\<close>












lemma unsizable_lib_raises_only_Exception: "raises_only_Exception unsizable_lib"
  by (simp add: raises_only_Exception_def unsizable_lib_def working_lib_def)






end
